theory Spec2Isabelle
  imports Complex_Main
begin

section \<open>Python values, errors and containers\<close>

text \<open>
  The recommendation system is written in Python. Exceptions are values of the type
  \<open>error\<close>, and a function that can raise returns \<open>error + 'a\<close> with \<open>Inl\<close> for the
  exception. Python floats are idealised as real numbers. User and product identifiers
  are Python integers.
\<close>

datatype error = KeyError | ValueError | IndexError | ZeroDivisionError | RedisError

text \<open>The slice \<open>xs[:n]\<close>; a negative \<open>n\<close> counts from the end of the list.\<close>

definition py_take :: "int \<Rightarrow> 'a list \<Rightarrow> 'a list" where
  "py_take n xs =
     (if 0 \<le> n then take (nat n) xs else take (nat (int (length xs) + n)) xs)"

text \<open>\<open>xs.index(x)\<close>: the first position of \<open>x\<close>, ValueError when there is none.\<close>

fun list_index :: "'a list \<Rightarrow> 'a \<Rightarrow> error + nat" where
  "list_index [] x = Inl ValueError"
| "list_index (y # ys) x =
     (if x = y then Inr 0
      else (case list_index ys x of Inl e \<Rightarrow> Inl e | Inr i \<Rightarrow> Inr (Suc i)))"

text \<open>\<open>xs[i]\<close> for a non-negative index: IndexError out of range.\<close>

definition py_nth :: "'a list \<Rightarrow> nat \<Rightarrow> error + 'a" where
  "py_nth xs i = (if i < length xs then Inr (xs ! i) else Inl IndexError)"

text \<open>A list comprehension whose element expression can raise: the first exception wins.\<close>

fun traverse :: "('a \<Rightarrow> error + 'b) \<Rightarrow> 'a list \<Rightarrow> error + 'b list" where
  "traverse f [] = Inr []"
| "traverse f (x # xs) =
     (case f x of Inl e \<Rightarrow> Inl e
      | Inr y \<Rightarrow> (case traverse f xs of Inl e \<Rightarrow> Inl e | Inr ys \<Rightarrow> Inr (y # ys)))"

text \<open>\<open>sep.join(xs)\<close>.\<close>

fun join :: "string \<Rightarrow> string list \<Rightarrow> string" where
  "join sep [] = []"
| "join sep [x] = x"
| "join sep (x # y # ys) = x @ sep @ join sep (y # ys)"

text \<open>\<open>str(n)\<close> for an integer, as an f-string formats it.\<close>

definition digit :: "nat \<Rightarrow> char" where
  "digit d = ''0123456789'' ! d"

fun str_nat :: "nat \<Rightarrow> string" where
  "str_nat n = (if n < 10 then [digit n] else str_nat (n div 10) @ [digit (n mod 10)])"

declare str_nat.simps [simp del]

definition str_int :: "int \<Rightarrow> string" where
  "str_int i = (if i < 0 then CHR ''-'' # str_nat (nat (- i)) else str_nat (nat i))"

text \<open>
  A \<open>defaultdict\<close> keeps its keys in insertion order. \<open>d[k] = f(d[k])\<close> changes the
  value in place when the key is there, and appends the key with \<open>f\<close> of the default
  value when it is not.
\<close>

fun dd_update :: "('v \<Rightarrow> 'v) \<Rightarrow> 'v \<Rightarrow> 'k \<Rightarrow> ('k \<times> 'v) list \<Rightarrow> ('k \<times> 'v) list" where
  "dd_update f d k [] = [(k, f d)]"
| "dd_update f d k ((k', v) # kvs) =
     (if k = k' then (k', f v) # kvs else (k', v) # dd_update f d k kvs)"

text \<open>\<open>sorted(items, key=lambda x: x[1], reverse=True)\<close>: stable, largest value first.\<close>

definition sorted_desc :: "('k \<times> real) list \<Rightarrow> ('k \<times> real) list" where
  "sorted_desc items = sort_key (\<lambda>x. - snd x) items"

section \<open>Data model (data\_loading.py)\<close>

record user =
  uname :: string
  location :: string
  device :: string

record product =
  pname :: string
  category :: string
  tags :: "string list"
  rating :: real
  device_suitability :: "string list"

record signal =
  peak_days :: "string list"
  season :: string

text \<open>A purchase is (product id, quantity, timestamp); a browsing event is (product id, timestamp).\<close>

type_synonym purchase = "int \<times> int \<times> string"
type_synonym purchase_history = "(int \<times> purchase list) list"
type_synonym browsing_history = "int \<rightharpoonup> (int \<times> string) list"
type_synonym products = "(int \<times> product) list"

section \<open>Feature vectors (feature\_engineering.py)\<close>

fun set_tags :: "string list \<Rightarrow> string list \<Rightarrow> real list \<Rightarrow> error + real list" where
  "set_tags all_tags [] tag_vector = Inr tag_vector"
| "set_tags all_tags (tag # rest) tag_vector =
     (case list_index all_tags tag of
        Inl e \<Rightarrow> Inl e
      | Inr i \<Rightarrow> set_tags all_tags rest (tag_vector[i := 1]))"

definition create_product_feature_vector ::
  "product \<Rightarrow> string list \<Rightarrow> string list \<Rightarrow> error + real list" where
  "create_product_feature_vector product all_tags all_categories =
     (let tag_vector = replicate (length all_tags) 0;
          category_vector = replicate (length all_categories) 0
      in case set_tags all_tags (tags product) tag_vector of
           Inl e \<Rightarrow> Inl e
         | Inr tag_vector \<Rightarrow>
             (case list_index all_categories (category product) of
                Inl e \<Rightarrow> Inl e
              | Inr i \<Rightarrow> Inr (tag_vector @ category_vector[i := 1])))"

section \<open>Signal recommenders (recommendation\_algorithms.py)\<close>

text \<open>\<open>{p[0] for p in purchase_history.get(user_id, [])}\<close>\<close>

definition purchased_products :: "purchase_history \<Rightarrow> int \<Rightarrow> int set" where
  "purchased_products purchase_history user_id =
     set (map fst (case map_of purchase_history user_id of None \<Rightarrow> [] | Some ps \<Rightarrow> ps))"

text \<open>
  The numerical kernels are library calls on floating-point arrays and are taken as
  parameters. \<open>latent_ranking row\<close> stands for
  \<open>np.argsort(item_factors @ user_factors[row])[::-1]\<close>, the item rows by descending
  score (or the exception numpy raises); it replaces the parameters \<open>user_factors\<close>
  and \<open>item_factors\<close>. \<open>kneighbors vectors n profile\<close> stands for the row indices
  that scikit-learn's \<open>NearestNeighbors(n_neighbors=n, metric="cosine")\<close>, fitted on
  \<open>vectors\<close>, returns for \<open>profile\<close> (or the exception it raises).
\<close>

definition recommend_products_mf ::
  "int \<Rightarrow> (nat \<Rightarrow> error + nat list) \<Rightarrow> (int \<rightharpoonup> nat) \<Rightarrow> (int \<times> nat) list \<Rightarrow>
   purchase_history \<Rightarrow> int \<Rightarrow> error + int list" where
  "recommend_products_mf user_id latent_ranking user_index product_index purchase_history top_n =
     (case user_index user_id of
        None \<Rightarrow> Inr []
      | Some row \<Rightarrow>
          (case latent_ranking row of
             Inl e \<Rightarrow> Inl e
           | Inr sorted_indices \<Rightarrow>
               (case traverse (py_nth (map fst product_index)) sorted_indices of
                  Inl e \<Rightarrow> Inl e
                | Inr sorted_products \<Rightarrow>
                    Inr (py_take top_n
                          (filter (\<lambda>pid. pid \<notin> purchased_products purchase_history user_id)
                             sorted_products)))))"

definition recommend_products_cbf ::
  "(real list list \<Rightarrow> int \<Rightarrow> real list \<Rightarrow> error + nat list) \<Rightarrow>
   int \<Rightarrow> (int \<rightharpoonup> real list) \<Rightarrow> (int \<times> real list) list \<Rightarrow>
   purchase_history \<Rightarrow> int \<Rightarrow> error + int list" where
  "recommend_products_cbf kneighbors user_id user_profiles product_feature_vectors
       purchase_history top_n =
     (case user_profiles user_id of
        None \<Rightarrow> Inl KeyError
      | Some user_profile \<Rightarrow>
          (case kneighbors (map snd product_feature_vectors) top_n user_profile of
             Inl e \<Rightarrow> Inl e
           | Inr indices \<Rightarrow>
               (case traverse (py_nth (map fst product_feature_vectors)) indices of
                  Inl e \<Rightarrow> Inl e
                | Inr neighbours \<Rightarrow>
                    Inr (py_take top_n
                          (filter (\<lambda>pid. pid \<notin> purchased_products purchase_history user_id)
                             neighbours)))))"

definition recommend_popular_trending_products ::
  "int \<Rightarrow> (int \<times> real) list \<Rightarrow> purchase_history \<Rightarrow> int \<Rightarrow> int list" where
  "recommend_popular_trending_products user_id popular_products purchase_history top_n =
     py_take top_n
       (map fst (filter (\<lambda>(pid, _). pid \<notin> purchased_products purchase_history user_id)
                   popular_products))"

text \<open>\<open>current_day\<close> is \<open>datetime.now().strftime("%A")\<close>, read from the clock.\<close>

definition recommend_products_time_based ::
  "string \<Rightarrow> string list \<Rightarrow> products \<Rightarrow> (string \<times> signal) list \<Rightarrow> int list" where
  "recommend_products_time_based current_day season_input products contextual_signals =
     (let trending_categories =
            set (map fst (filter (\<lambda>(cat, signals).
                   current_day \<in> set (peak_days signals) \<and> season signals \<in> set season_input)
                 contextual_signals))
      in map fst (filter (\<lambda>(product_id, product). category product \<in> trending_categories)
                    products))"

definition recommend_products_device_based ::
  "int \<Rightarrow> (int \<rightharpoonup> user) \<Rightarrow> products \<Rightarrow> purchase_history \<Rightarrow> int \<Rightarrow> int list" where
  "recommend_products_device_based user_id users products purchase_history top_n =
     (case users user_id of
        None \<Rightarrow> []
      | Some u \<Rightarrow>
          (let device_type = device u;
               device_recommendations =
                 map fst (filter (\<lambda>(product_id, product).
                            device_type \<in> set (device_suitability product)) products);
               device_recommendations =
                 (case map_of purchase_history user_id of
                    None \<Rightarrow> device_recommendations
                  | Some purchases \<Rightarrow>
                      filter (\<lambda>product_id. product_id \<notin> set (map fst purchases))
                        device_recommendations)
           in py_take top_n device_recommendations))"

section \<open>Popularity ranking (main.py)\<close>

definition purchase_frequency :: "purchase_history \<Rightarrow> (int \<times> nat) list" where
  "purchase_frequency purchase_history =
     fold (\<lambda>product_id. dd_update (\<lambda>n. n + 1) 0 product_id)
       (concat (map (\<lambda>(user_id, purchases). map fst purchases) purchase_history)) []"

definition compute_product_popularity ::
  "purchase_history \<Rightarrow> products \<Rightarrow> real \<Rightarrow> real \<Rightarrow> error + (int \<times> real) list" where
  "compute_product_popularity purchase_history products rating_weight frequency_weight =
     (case traverse (\<lambda>(product_id, frequency).
                  case map_of products product_id of
                    None \<Rightarrow> Inl KeyError
                  | Some product \<Rightarrow>
                      Inr (product_id,
                           rating_weight * rating product + frequency_weight * real frequency))
             (purchase_frequency purchase_history) of
        Inl e \<Rightarrow> Inl e
      | Inr product_popularity \<Rightarrow>
          (let max_popularity =
                 (if product_popularity = [] then 1 else Max (set (map snd product_popularity)))
           in if product_popularity \<noteq> [] \<and> max_popularity = 0 then Inl ZeroDivisionError
              else Inr (sorted_desc
                          (map (\<lambda>(product_id, popularity). (product_id, popularity / max_popularity))
                             product_popularity))))"

section \<open>The recommendation cache (main.py, setup.py)\<close>

text \<open>
  The Redis client is an external collaborator. Its state is the stored values and
  whether a call to \<open>get\<close> or to \<open>setex\<close> raises (an unreachable server, a timeout).
  A stored value is described by what \<open>json.loads\<close> makes of it: the empty string,
  text that is not JSON, or the encoding of a recommendation list. Expiry after the
  time to live is not modelled.
\<close>

datatype blob = Blank | Corrupt | Encoded "(int \<times> string) list"

record redis =
  store :: "string \<rightharpoonup> blob"
  get_raises :: bool
  setex_raises :: bool

definition redis_get :: "redis \<Rightarrow> string \<Rightarrow> error + blob option" where
  "redis_get r k = (if get_raises r then Inl RedisError else Inr (store r k))"

definition redis_setex :: "redis \<Rightarrow> string \<Rightarrow> nat \<Rightarrow> blob \<Rightarrow> error + redis" where
  "redis_setex r k ttl v =
     (if setex_raises r then Inl RedisError else Inr (r\<lparr>store := (store r)(k \<mapsto> v)\<rparr>))"

text \<open>
  \<open>json.dumps\<close> of a list of (integer, string) pairs raises neither TypeError nor
  JSONDecodeError, so the handler of \<open>cache_recommendations\<close> has no branch here; an
  exception of \<open>setex\<close> is not of those classes and leaves the function.
\<close>

definition cache_recommendations ::
  "redis \<Rightarrow> int \<Rightarrow> string list \<Rightarrow> (int \<times> string) list \<Rightarrow> nat \<Rightarrow> error + redis" where
  "cache_recommendations r user_id season_input recommendations ttl =
     (let cache_key = ''recommendations:'' @ str_int user_id @ '':'' @ join '','' season_input
      in redis_setex r cache_key ttl (Encoded recommendations))"

definition get_cached_recommendations ::
  "redis \<Rightarrow> int \<Rightarrow> string list \<Rightarrow> error + (int \<times> string) list option" where
  "get_cached_recommendations r user_id season_input =
     (let cache_key = ''recommendations:'' @ str_int user_id @ '':'' @ join '','' season_input
      in case redis_get r cache_key of
           Inl e \<Rightarrow> Inl e
         | Inr None \<Rightarrow> Inr None
         | Inr (Some Blank) \<Rightarrow> Inr None
         | Inr (Some Corrupt) \<Rightarrow> Inr None
         | Inr (Some (Encoded recommendations)) \<Rightarrow> Inr (Some recommendations))"

section \<open>Hybrid fusion (main.py)\<close>

datatype source = Mf | Cbf | Popular | Time_based | Device_based

fun EXPLANATION_TEMPLATES :: "source \<Rightarrow> string" where
  "EXPLANATION_TEMPLATES Mf = ''Recommended because users similar to you purchased this.''"
| "EXPLANATION_TEMPLATES Cbf = ''Recommended because it matches your interests.''"
| "EXPLANATION_TEMPLATES Popular = ''Recommended because it's popular among other users.''"
| "EXPLANATION_TEMPLATES Time_based = ''Recommended because it's trending this season.''"
| "EXPLANATION_TEMPLATES Device_based = ''Recommended because it's suitable for your device.''"

text \<open>
  What \<open>recommend_products_hybrid\<close> returns: a list of (product id, explanation) pairs,
  or a list of bare product ids.
\<close>

datatype recommendations = Explained "(int \<times> string) list" | Plain "int list"

text \<open>\<open>float(os.getenv(var, dflt))\<close>, for an environment of parsed numbers.\<close>

definition getenv_float :: "(string \<rightharpoonup> real) \<Rightarrow> string \<Rightarrow> real \<Rightarrow> real" where
  "getenv_float env var dflt = (case env var of None \<Rightarrow> dflt | Some w \<Rightarrow> w)"

text \<open>
  One of the five loops over \<open>enumerate(xs)\<close>: the product at position \<open>i\<close> gets
  \<open>weight * (1 - i / len(xs))\<close> added to its score and the signal appended to its sources.
\<close>

type_synonym tally = "(int \<times> real) list \<times> (int \<times> source list) list"

fun score_loop :: "real \<Rightarrow> source \<Rightarrow> nat \<Rightarrow> nat \<Rightarrow> int list \<Rightarrow> tally \<Rightarrow> tally" where
  "score_loop weight src n i [] t = t"
| "score_loop weight src n i (product_id # rest) (recommendation_scores, recommendation_sources) =
     score_loop weight src n (Suc i) rest
       (dd_update (\<lambda>v. v + weight * (1 - real i / real n)) 0 product_id recommendation_scores,
        dd_update (\<lambda>l. l @ [src]) [] product_id recommendation_sources)"

definition add_signal :: "real \<Rightarrow> source \<Rightarrow> int list \<Rightarrow> tally \<Rightarrow> tally" where
  "add_signal weight src xs t = score_loop weight src (length xs) 0 xs t"

text \<open>Lines 113 to 124: the weights, from the environment.\<close>

definition signal_weights :: "(string \<rightharpoonup> real) \<Rightarrow> bool \<Rightarrow> real \<times> real \<times> real \<times> real \<times> real" where
  "signal_weights env is_new_user =
     (if is_new_user then
        (getenv_float env ''NEW_USER_MF_WEIGHT'' 0.0,
         getenv_float env ''NEW_USER_CBF_WEIGHT'' 0.0,
         getenv_float env ''NEW_USER_POPULAR_WEIGHT'' 0.5,
         getenv_float env ''NEW_USER_TIME_BASE_WEIGHT'' 0.3,
         getenv_float env ''NEW_USER_DEVICE_WEIGHT'' 0.2)
      else
        (getenv_float env ''MF_WEIGHT'' 0.5,
         getenv_float env ''CBF_WEIGHT'' 0.4,
         getenv_float env ''POPULAR_WEIGHT'' 0.3,
         getenv_float env ''TIME_BASE_WEIGHT'' 0.2,
         getenv_float env ''DEVICE_WEIGHT'' 0.2))"

text \<open>Lines 126 to 147: the five loops, in the order of the source.\<close>

definition fuse ::
  "real \<times> real \<times> real \<times> real \<times> real \<Rightarrow>
   int list \<Rightarrow> int list \<Rightarrow> int list \<Rightarrow> int list \<Rightarrow> int list \<Rightarrow> tally" where
  "fuse ws mf_recommendations cbf_recommendations popular_recommendations
        time_based_recommendations device_recommendations =
     (case ws of (mf_weight, cbf_weight, popular_weight, time_base_weight, device_weight) \<Rightarrow>
        add_signal device_weight Device_based device_recommendations
          (add_signal time_base_weight Time_based time_based_recommendations
            (add_signal popular_weight Popular popular_recommendations
              (add_signal cbf_weight Cbf cbf_recommendations
                (add_signal mf_weight Mf mf_recommendations ([], []))))))"

text \<open>\<open>recommendation_sources[product_id]\<close>, the empty list for a key that is not there.\<close>

definition sources_of :: "(int \<times> source list) list \<Rightarrow> int \<Rightarrow> source list" where
  "sources_of recommendation_sources product_id =
     (case map_of recommendation_sources product_id of None \<Rightarrow> [] | Some l \<Rightarrow> l)"

text \<open>Lines 149 to 155: ranking, truncation and explanations.\<close>

definition top_recommendations :: "tally \<Rightarrow> int \<Rightarrow> (int \<times> string) list" where
  "top_recommendations t top_n =
     (case t of (recommendation_scores, recommendation_sources) \<Rightarrow>
        (let sorted_recommendations = sorted_desc recommendation_scores
         in map (\<lambda>(product_id, _).
                   (product_id,
                    join '', '' (map EXPLANATION_TEMPLATES
                                   (sources_of recommendation_sources product_id))))
              (py_take top_n sorted_recommendations)))"

definition recommend_products_hybrid ::
  "redis \<Rightarrow> (string \<rightharpoonup> real) \<Rightarrow> string \<Rightarrow>
   (real list list \<Rightarrow> int \<Rightarrow> real list \<Rightarrow> error + nat list) \<Rightarrow>
   int \<Rightarrow> string list \<Rightarrow> (int \<rightharpoonup> user) \<Rightarrow> products \<Rightarrow> (string \<times> signal) list \<Rightarrow>
   browsing_history \<Rightarrow> purchase_history \<Rightarrow> (int \<times> real) list \<Rightarrow>
   (nat \<Rightarrow> error + nat list) \<Rightarrow> (int \<rightharpoonup> nat) \<Rightarrow> (int \<times> nat) list \<Rightarrow>
   (int \<rightharpoonup> real list) \<Rightarrow> (int \<times> real list) list \<Rightarrow> int \<Rightarrow>
   error + recommendations \<times> redis" where
  "recommend_products_hybrid r env current_day kneighbors
       user_id season_input users products contextual_signals browsing_history
       purchase_history popular_products latent_ranking user_index product_index
       user_profiles product_feature_vectors top_n =
     (case get_cached_recommendations r user_id season_input of
        Inl e \<Rightarrow> Inl e
      | Inr cached_recommendations \<Rightarrow>
          (case cached_recommendations of
             Some (entry # entries) \<Rightarrow> Inr (Explained (entry # entries), r)
           | _ \<Rightarrow>
          (let is_new_user =
                 (browsing_history user_id = None \<and> map_of purchase_history user_id = None);
               popular_recommendations =
                 recommend_popular_trending_products user_id popular_products
                   purchase_history top_n
           in if is_new_user then
                Inr (Explained (map (\<lambda>product_id. (product_id, EXPLANATION_TEMPLATES Popular))
                                  popular_recommendations), r)
              else
                (case (if is_new_user then Inr []
                       else recommend_products_mf user_id latent_ranking user_index
                              product_index purchase_history top_n) of
                   Inl e \<Rightarrow> Inl e
                 | Inr mf_recommendations \<Rightarrow>
                (case (if is_new_user then Inr []
                       else recommend_products_cbf kneighbors user_id user_profiles
                              product_feature_vectors purchase_history top_n) of
                   Inl e \<Rightarrow> Inl e
                 | Inr cbf_recommendations \<Rightarrow>
                (let time_based_recommendations =
                       recommend_products_time_based current_day season_input products
                         contextual_signals;
                     device_recommendations =
                       recommend_products_device_based user_id users products
                         purchase_history top_n
                 in if \<not> (mf_recommendations \<noteq> [] \<or> cbf_recommendations \<noteq> [] \<or>
                          time_based_recommendations \<noteq> [] \<or> device_recommendations \<noteq> [])
                    then Inr (Plain (py_take top_n popular_recommendations), r)
                    else
                      (let t = fuse (signal_weights env is_new_user) mf_recommendations
                                 cbf_recommendations popular_recommendations
                                 time_based_recommendations device_recommendations;
                           top_recs = top_recommendations t top_n
                       in case cache_recommendations r user_id season_input top_recs 3600 of
                            Inl e \<Rightarrow> Inl e
                          | Inr r' \<Rightarrow> Inr (Explained top_recs, r'))))))))"

text \<open>The score a dictionary of scores holds for a product, 0 when it holds none.\<close>

definition score_of :: "('k \<times> real) list \<Rightarrow> 'k \<Rightarrow> real" where
  "score_of scores p = (case map_of scores p of None \<Rightarrow> 0 | Some v \<Rightarrow> v)"

text \<open>The product ids of a result, and the reading of the cache that ends in a computation.\<close>

definition product_ids :: "recommendations \<Rightarrow> int list" where
  "product_ids x = (case x of Explained recs \<Rightarrow> map fst recs | Plain ids \<Rightarrow> ids)"

definition cache_miss :: "redis \<Rightarrow> int \<Rightarrow> string list \<Rightarrow> bool" where
  "cache_miss r user_id season_input =
     (get_cached_recommendations r user_id season_input \<in> {Inr None, Inr (Some [])})"

text \<open>
  The specification's account of the fusion: a ranked list \<open>xs\<close> gives the product at
  position \<open>i\<close> the share \<open>weight * (1 - i / len(xs))\<close>, and the aggregate score of a
  product is the sum of its shares over the five lists.
\<close>

definition contribution :: "real \<Rightarrow> int list \<Rightarrow> int \<Rightarrow> real" where
  "contribution weight xs p =
     (\<Sum>i<length xs. if xs ! i = p then weight * (1 - real i / real (length xs)) else 0)"

definition aggregate_score ::
  "real \<times> real \<times> real \<times> real \<times> real \<Rightarrow>
   int list \<Rightarrow> int list \<Rightarrow> int list \<Rightarrow> int list \<Rightarrow> int list \<Rightarrow> int \<Rightarrow> real" where
  "aggregate_score ws mf_list cbf_list popular_list time_list device_list p =
     (case ws of (mf_weight, cbf_weight, popular_weight, time_base_weight, device_weight) \<Rightarrow>
        contribution mf_weight mf_list p + contribution cbf_weight cbf_list p +
        contribution popular_weight popular_list p + contribution time_base_weight time_list p +
        contribution device_weight device_list p)"





section \<open>The sample dataset (data\_loading.py)\<close>

definition sample_users :: "int \<rightharpoonup> user" where
  "sample_users = map_of
     [(1, \<lparr>uname = ''Alice'', location = ''New York'', device = ''mobile''\<rparr>),
      (2, \<lparr>uname = ''Bob'', location = ''Los Angeles'', device = ''desktop''\<rparr>),
      (3, \<lparr>uname = ''Charlie'', location = ''Chicago'', device = ''mobile''\<rparr>),
      (4, \<lparr>uname = ''Diana'', location = ''San Francisco'', device = ''desktop''\<rparr>),
      (5, \<lparr>uname = ''Mary'', location = ''San Francisco'', device = ''desktop''\<rparr>)]"

definition sample_products :: products where
  "sample_products =
     [(101, \<lparr>pname = ''Wireless Earbuds'', category = ''Electronics'',
             tags = [''audio'', ''wireless'', ''Bluetooth''], rating = 4.5,
             device_suitability = [''mobile'', ''tablet'']\<rparr>),
      (102, \<lparr>pname = ''Smartphone Case'', category = ''Accessories'',
             tags = [''phone'', ''protection'', ''case''], rating = 4.2,
             device_suitability = [''mobile'']\<rparr>),
      (103, \<lparr>pname = ''Yoga Mat'', category = ''Fitness'',
             tags = [''exercise'', ''mat'', ''yoga''], rating = 4.7,
             device_suitability = [''tablet'']\<rparr>),
      (104, \<lparr>pname = ''Electric Toothbrush'', category = ''Personal Care'',
             tags = [''hygiene'', ''electric'', ''toothbrush''], rating = 4.3,
             device_suitability = [''mobile'']\<rparr>),
      (105, \<lparr>pname = ''Laptop Stand'', category = ''Office Supplies'',
             tags = [''work'', ''laptop'', ''stand''], rating = 4.6,
             device_suitability = [''desktop'']\<rparr>)]"

definition sample_browsing_history :: browsing_history where
  "sample_browsing_history = map_of
     [(1, [(101, ''2025-03-04 10:00:00''), (103, ''2023-10-01 10:05:00'')]),
      (2, [(102, ''2025-03-04 11:30:00'')]),
      (3, [(104, ''2025-03-04 14:30:00'')]),
      (4, [(105, ''2025-03-04 16:30:00'')])]"

definition sample_purchase_history :: purchase_history where
  "sample_purchase_history =
     [(1, [(101, 1, ''2025-03-04 10:00:00'')]),
      (2, [(105, 2, ''2025-03-04 12:00:00'')]),
      (3, [(103, 1, ''2025-03-04 12:00:00'')]),
      (4, [(101, 1, ''2025-03-04 12:00:00'')])]"

definition sample_contextual_signals :: "(string \<times> signal) list" where
  "sample_contextual_signals =
     [(''Electronics'', \<lparr>peak_days = [''Friday'', ''Saturday''], season = ''Holiday''\<rparr>),
      (''Fitness'', \<lparr>peak_days = [''Monday'', ''Wednesday''], season = ''Summer''\<rparr>),
      (''Office Supplies'', \<lparr>peak_days = [''Tuesday'', ''Thursday''], season = ''Back-to-School''\<rparr>),
      (''Personal Care'', \<lparr>peak_days = [''Sunday''], season = ''All Year''\<rparr>)]"

text \<open>\<open>build_index\<close> on the sample: users and products numbered in dictionary order.\<close>

definition sample_user_index :: "int \<rightharpoonup> nat" where
  "sample_user_index = map_of [(1, 0), (2, 1), (3, 2), (4, 3), (5, 4)]"

definition sample_product_index :: "(int \<times> nat) list" where
  "sample_product_index = [(101, 0), (102, 1), (103, 2), (104, 3), (105, 4)]"

text \<open>An empty, reachable cache.\<close>

definition empty_cache :: redis where
  "empty_cache = \<lparr>store = Map.empty, get_raises = False, setex_raises = False\<rparr>"

text \<open>
  Derived inputs for the sample: the popularity ranking, the feature vectors for the
  vocabularies in catalogue order and the user profiles. The vectors only reach the
  nearest-neighbour search.
\<close>

definition sample_popular_products :: "(int \<times> real) list" where
  "sample_popular_products = [(101, 1), (103, 359 / 375), (105, 352 / 375)]"

definition sample_product_feature_vectors :: "(int \<times> real list) list" where
  "sample_product_feature_vectors =
     [(101, replicate 3 1 @ replicate 12 0 @ [1, 0, 0, 0, 0]),
      (102, replicate 3 0 @ replicate 3 1 @ replicate 9 0 @ [0, 1, 0, 0, 0]),
      (103, replicate 6 0 @ replicate 3 1 @ replicate 6 0 @ [0, 0, 1, 0, 0]),
      (104, replicate 9 0 @ replicate 3 1 @ replicate 3 0 @ [0, 0, 0, 1, 0]),
      (105, replicate 12 0 @ replicate 3 1 @ [0, 0, 0, 0, 1])]"

definition sample_user_profiles :: "int \<rightharpoonup> real list" where
  "sample_user_profiles = map_of
     [(1, replicate 3 (1/2) @ replicate 3 0 @ replicate 3 (1/2) @ replicate 6 0 @
          [1/2, 0, 1/2, 0, 0]),
      (2, replicate 3 0 @ replicate 3 (1/2) @ replicate 6 0 @ replicate 3 (1/2) @
          [0, 1/2, 0, 0, 1/2]),
      (3, replicate 6 0 @ replicate 6 (1/2) @ replicate 3 0 @ [0, 0, 1/2, 1/2, 0]),
      (4, replicate 3 (1/2) @ replicate 9 0 @ replicate 3 (1/2) @ [1/2, 0, 0, 0, 1/2]),
      (5, replicate 20 0)]"

text \<open>
  Stand-ins for the numerical kernels at a concrete request: the latent ranking is a
  fixed order of the item rows, the neighbour search returns the first \<open>n\<close> rows of a
  fixed order.
\<close>

definition ranking_stub :: "nat list \<Rightarrow> nat \<Rightarrow> error + nat list" where
  "ranking_stub order row = Inr order"

definition kneighbors_stub ::
  "nat list \<Rightarrow> real list list \<Rightarrow> int \<Rightarrow> real list \<Rightarrow> error + nat list" where
  "kneighbors_stub order vectors n profile = Inr (take (nat n) order)"

text \<open>
  The sample with one more shopper: user 6 browsed and bought product 101 and has a
  profile, but has no entry in the user table or the user index.
\<close>

definition guest_browsing_history :: browsing_history where
  "guest_browsing_history = sample_browsing_history(6 \<mapsto> [(101, ''2025-03-05 09:00:00'')])"

definition guest_purchase_history :: purchase_history where
  "guest_purchase_history = sample_purchase_history @ [(6, [(101, 1, ''2025-03-05 09:10:00'')])]"

definition guest_user_profiles :: "int \<rightharpoonup> real list" where
  "guest_user_profiles =
     sample_user_profiles(6 \<mapsto> replicate 3 1 @ replicate 12 0 @ [1, 0, 0, 0, 0])"

definition guest_popular_products :: "(int \<times> real) list" where
  "guest_popular_products = [(101, 1), (103, 359 / 405), (105, 352 / 405)]"

section \<open>Properties\<close>

lemma list_index_absent: "x \<notin> set xs \<Longrightarrow> list_index xs x = Inl ValueError"
  by (induction xs) auto

lemma list_index_error: "list_index xs x = Inl e \<Longrightarrow> e = ValueError"
  by (induction xs arbitrary: e) (auto split: if_splits sum.splits)

lemma set_tags_error: "set_tags all_tags ts v = Inl e \<Longrightarrow> e = ValueError"
  by (induction ts arbitrary: v) (auto split: sum.splits dest: list_index_error)

lemma set_tags_absent:
  "\<not> set ts \<subseteq> set all_tags \<Longrightarrow> set_tags all_tags ts v = Inl ValueError"
proof (induction ts arbitrary: v)
  case Nil
  then show ?case by simp
next
  case (Cons t ts)
  show ?case
  proof (cases "list_index all_tags t")
    case (Inl e)
    then show ?thesis by (simp add: list_index_error)
  next
    case (Inr i)
    then have "t \<in> set all_tags"
      using list_index_absent [of t all_tags] by auto
    with Cons.prems have "\<not> set ts \<subseteq> set all_tags" by auto
    then show ?thesis using Inr Cons.IH by simp
  qed
qed

text \<open>
  Claim C7. A product whose category is not in the category vocabulary, or one of whose
  tags is not in the tag vocabulary, is not vectorised: \<open>create_product_feature_vector\<close>
  raises ValueError (the invalid-entity failure) and returns no vector.
\<close>

theorem create_product_feature_vector_invalid:
  assumes "category product \<notin> set all_categories \<or> \<not> set (tags product) \<subseteq> set all_tags"
  shows "create_product_feature_vector product all_tags all_categories = Inl ValueError"
proof (cases "set_tags all_tags (tags product) (replicate (length all_tags) 0)")
  case (Inl e)
  then show ?thesis
    by (simp add: create_product_feature_vector_def set_tags_error)
next
  case (Inr v)
  then have "set (tags product) \<subseteq> set all_tags"
    using set_tags_absent [of "tags product" all_tags "replicate (length all_tags) 0"] by auto
  with assms have "category product \<notin> set all_categories" by simp
  then show ?thesis
    using Inr by (simp add: create_product_feature_vector_def list_index_absent)
qed

theorem create_product_feature_vector_invalid_witness:
  "create_product_feature_vector
     \<lparr>pname = ''Invalid Product'', category = ''NonExistentCategory'', tags = [''audio''],
      rating = 0, device_suitability = []\<rparr>
     [''audio'', ''wireless''] [''Electronics'', ''Fitness''] = Inl ValueError"
  using create_product_feature_vector_invalid
    [of "\<lparr>pname = ''Invalid Product'', category = ''NonExistentCategory'', tags = [''audio''],
          rating = 0, device_suitability = []\<rparr>" "[''Electronics'', ''Fitness'']"
        "[''audio'', ''wireless'']"]
  by simp

subsection \<open>Evaluation of the model on concrete requests\<close>

lemma str_int_samples:
  "str_int 1 = ''1''" "str_int 3 = ''3''" "str_int 6 = ''6''" "str_int 999 = ''999''"
  by code_simp+

lemmas sample_defs =
  sample_users_def sample_products_def sample_browsing_history_def
  sample_purchase_history_def sample_contextual_signals_def sample_user_index_def
  sample_product_index_def empty_cache_def sample_popular_products_def
  sample_product_feature_vectors_def sample_user_profiles_def ranking_stub_def
  kneighbors_stub_def guest_browsing_history_def guest_purchase_history_def
  guest_user_profiles_def guest_popular_products_def

lemmas model_defs =
  recommend_products_hybrid_def get_cached_recommendations_def
  cache_recommendations_def redis_get_def redis_setex_def
  recommend_popular_trending_products_def recommend_products_mf_def
  recommend_products_cbf_def recommend_products_time_based_def
  recommend_products_device_based_def purchased_products_def py_take_def py_nth_def
  fuse_def add_signal_def signal_weights_def getenv_float_def top_recommendations_def
  sorted_desc_def sources_of_def str_int_samples product_ids_def cache_miss_def
  Let_def

lemma sample_popularity:
  "compute_product_popularity sample_purchase_history sample_products 0.7 0.3 =
     Inr sample_popular_products"
  by (simp add: compute_product_popularity_def purchase_frequency_def sample_defs
      sorted_desc_def)

lemma guest_popularity:
  "compute_product_popularity guest_purchase_history sample_products 0.7 0.3 =
     Inr guest_popular_products"
  by (simp add: compute_product_popularity_def purchase_frequency_def sample_defs
      sorted_desc_def)

subsection \<open>The cache key\<close>

lemma cache_write_ok:
  "\<not> setex_raises r \<Longrightarrow>
   cache_recommendations r user_id season_input recs ttl =
     Inr (r\<lparr>store := (store r)(''recommendations:'' @ str_int user_id @ '':'' @
                                  join '','' season_input \<mapsto> Encoded recs)\<rparr>)"
  by (simp add: cache_recommendations_def redis_setex_def)

lemma cache_write_fails:
  "setex_raises r \<Longrightarrow> cache_recommendations r user_id season_input recs ttl = Inl RedisError"
  by (simp add: cache_recommendations_def redis_setex_def)

text \<open>
  Claim C6, as the code has it. The key that \<open>cache_recommendations\<close> writes and
  \<open>get_cached_recommendations\<close> reads is \<open>recommendations:{user_id}:\<close> followed by the
  season labels joined by commas in the order in which they were given: a write stores
  the list under that key, a read with the same labels in the same order finds it, and
  a read finds nothing when that key holds nothing.
\<close>

theorem cache_key_in_given_order:
  assumes "\<not> get_raises r" and "\<not> setex_raises r"
  shows "\<exists>r'. cache_recommendations r user_id season_input recs ttl = Inr r' \<and>
           store r' = (store r)(''recommendations:'' @ str_int user_id @ '':'' @
                                 join '','' season_input \<mapsto> Encoded recs) \<and>
           get_cached_recommendations r' user_id season_input = Inr (Some recs) \<and>
           (store r (''recommendations:'' @ str_int user_id @ '':'' @
                      join '','' season_input) = None \<longrightarrow>
              get_cached_recommendations r user_id season_input = Inr None)"
  using assms
  by (simp add: cache_recommendations_def get_cached_recommendations_def redis_get_def
      redis_setex_def)

theorem cache_key_in_given_order_witness:
  "\<exists>r'. cache_recommendations empty_cache 1 [''Summer'', ''All Year'']
            [(102, EXPLANATION_TEMPLATES Device_based)] 3600 = Inr r' \<and>
         store r' = (store empty_cache)(''recommendations:'' @ str_int 1 @ '':'' @
                      join '','' [''Summer'', ''All Year''] \<mapsto>
                      Encoded [(102, EXPLANATION_TEMPLATES Device_based)]) \<and>
         get_cached_recommendations r' 1 [''Summer'', ''All Year''] =
           Inr (Some [(102, EXPLANATION_TEMPLATES Device_based)]) \<and>
         (store empty_cache (''recommendations:'' @ str_int 1 @ '':'' @
                      join '','' [''Summer'', ''All Year'']) = None \<longrightarrow>
            get_cached_recommendations empty_cache 1 [''Summer'', ''All Year''] = Inr None)"
proof -
  have g: "\<not> get_raises empty_cache" and s: "\<not> setex_raises empty_cache"
    by (simp_all add: empty_cache_def)
  show ?thesis by (rule cache_key_in_given_order [OF g s])
qed

text \<open>
  The labels are not sorted: a list cached for the season input Summer, All Year is
  stored under \<open>recommendations:1:Summer,All Year\<close>, the key of the sorted labels stays
  empty, and a request with the same labels in the order All Year, Summer misses.
\<close>

theorem cache_key_sorted_counterexample:
  "cache_recommendations empty_cache 1 [''Summer'', ''All Year'']
       [(102, EXPLANATION_TEMPLATES Device_based)] 3600 =
     Inr (empty_cache\<lparr>store := (store empty_cache)(''recommendations:1:Summer,All Year'' \<mapsto>
            Encoded [(102, EXPLANATION_TEMPLATES Device_based)])\<rparr>) \<and>
   store (empty_cache\<lparr>store := (store empty_cache)(''recommendations:1:Summer,All Year'' \<mapsto>
            Encoded [(102, EXPLANATION_TEMPLATES Device_based)])\<rparr>)
       ''recommendations:1:All Year,Summer'' = None \<and>
   get_cached_recommendations
       (empty_cache\<lparr>store := (store empty_cache)(''recommendations:1:Summer,All Year'' \<mapsto>
            Encoded [(102, EXPLANATION_TEMPLATES Device_based)])\<rparr>)
       1 [''All Year'', ''Summer''] = Inr None"
  by (simp add: cache_recommendations_def get_cached_recommendations_def redis_get_def
      redis_setex_def empty_cache_def str_int_samples)

subsection \<open>Cache failures\<close>

text \<open>
  Claim C2 fails on the code. With the sample data and a cache whose \<open>get\<close> raises, the
  request of user 1 ends in the exception of the store; with a cache whose \<open>setex\<close>
  raises, the computed list is lost in the same way. Neither call is inside a handler
  for the errors of the store.
\<close>

theorem cache_error_reaches_caller:
  "recommend_products_hybrid (empty_cache\<lparr>get_raises := True\<rparr>) Map.empty ''Monday''
     (kneighbors_stub [0, 2, 1, 3, 4]) 1 [''All Year'', ''Summer''] sample_users sample_products
     sample_contextual_signals sample_browsing_history sample_purchase_history
     sample_popular_products (ranking_stub [0, 1, 3, 4, 2]) sample_user_index
     sample_product_index sample_user_profiles sample_product_feature_vectors 5 =
     Inl RedisError \<and>
   recommend_products_hybrid (empty_cache\<lparr>setex_raises := True\<rparr>) Map.empty ''Monday''
     (kneighbors_stub [0, 2, 1, 3, 4]) 1 [''All Year'', ''Summer''] sample_users sample_products
     sample_contextual_signals sample_browsing_history sample_purchase_history
     sample_popular_products (ranking_stub [0, 1, 3, 4, 2]) sample_user_index
     sample_product_index sample_user_profiles sample_product_feature_vectors 5 =
     Inl RedisError"
  by (simp add: model_defs sample_defs)

theorem cache_error_reaches_caller_witness:
  "isl (recommend_products_hybrid (empty_cache\<lparr>get_raises := True\<rparr>) Map.empty ''Monday''
     (kneighbors_stub [0, 2, 1, 3, 4]) 1 [''All Year'', ''Summer''] sample_users sample_products
     sample_contextual_signals sample_browsing_history sample_purchase_history
     sample_popular_products (ranking_stub [0, 1, 3, 4, 2]) sample_user_index
     sample_product_index sample_user_profiles sample_product_feature_vectors 5) \<and>
   isl (recommend_products_hybrid (empty_cache\<lparr>setex_raises := True\<rparr>) Map.empty ''Monday''
     (kneighbors_stub [0, 2, 1, 3, 4]) 1 [''All Year'', ''Summer''] sample_users sample_products
     sample_contextual_signals sample_browsing_history sample_purchase_history
     sample_popular_products (ranking_stub [0, 1, 3, 4, 2]) sample_user_index
     sample_product_index sample_user_profiles sample_product_feature_vectors 5)"
  using cache_error_reaches_caller by simp

subsection \<open>Purchased products in the result\<close>

text \<open>
  Claim C1 fails on the code. User 3 of the sample bought product 103, a Fitness
  product. On a Monday with the season input All Year, Summer the time-based
  recommender returns 103, which has no filter on the user's purchases, and the fused
  list of five contains it.
\<close>

theorem hybrid_returns_purchased_product:
  "map_sum id (product_ids \<circ> fst)
     (recommend_products_hybrid empty_cache Map.empty ''Monday''
        (kneighbors_stub [2, 3, 0, 1, 4]) 3 [''All Year'', ''Summer''] sample_users
        sample_products sample_contextual_signals sample_browsing_history
        sample_purchase_history sample_popular_products (ranking_stub [0, 1, 3, 4, 2])
        sample_user_index sample_product_index sample_user_profiles
        sample_product_feature_vectors 5) = Inr [101, 104, 102, 105, 103] \<and>
   103 \<in> purchased_products sample_purchase_history 3 \<and>
   recommend_products_time_based ''Monday'' [''All Year'', ''Summer''] sample_products
     sample_contextual_signals = [103]"
  by (simp add: model_defs sample_defs)

theorem hybrid_returns_purchased_product_witness:
  "\<exists>ids. map_sum id (product_ids \<circ> fst)
     (recommend_products_hybrid empty_cache Map.empty ''Monday''
        (kneighbors_stub [2, 3, 0, 1, 4]) 3 [''All Year'', ''Summer''] sample_users
        sample_products sample_contextual_signals sample_browsing_history
        sample_purchase_history sample_popular_products (ranking_stub [0, 1, 3, 4, 2])
        sample_user_index sample_product_index sample_user_profiles
        sample_product_feature_vectors 5) = Inr ids \<and>
     103 \<in> set ids \<and> 103 \<in> purchased_products sample_purchase_history 3"
  using hybrid_returns_purchased_product by simp

subsection \<open>The fallback path\<close>

text \<open>
  Claim C5 fails on the code. User 6 is known from the histories, every neighbour the
  search returns is a product they bought, they are in neither the user table nor the
  index, and no category is in season: the four signals are empty and the request
  returns the bare product id 103, not a (product id, explanation) pair.
\<close>

theorem fallback_returns_bare_ids:
  "recommend_products_hybrid empty_cache Map.empty ''Sunday''
     (kneighbors_stub [0, 3, 1, 2, 4]) 6 [] sample_users sample_products
     sample_contextual_signals guest_browsing_history guest_purchase_history
     guest_popular_products (ranking_stub [0, 1, 3, 4, 2]) sample_user_index
     sample_product_index guest_user_profiles sample_product_feature_vectors 1 =
     Inr (Plain [103], empty_cache)"
  by (simp add: model_defs sample_defs)

theorem fallback_returns_bare_ids_witness:
  "\<exists>ids r'. recommend_products_hybrid empty_cache Map.empty ''Sunday''
     (kneighbors_stub [0, 3, 1, 2, 4]) 6 [] sample_users sample_products
     sample_contextual_signals guest_browsing_history guest_purchase_history
     guest_popular_products (ranking_stub [0, 1, 3, 4, 2]) sample_user_index
     sample_product_index guest_user_profiles sample_product_feature_vectors 1 =
     Inr (Plain ids, r') \<and> ids \<noteq> []"
  using fallback_returns_bare_ids by simp



subsection \<open>Lengths\<close>

lemma length_py_take: "0 \<le> n \<Longrightarrow> int (length (py_take n xs)) \<le> n"
  by (simp add: py_take_def)

subsection \<open>New users\<close>

text \<open>
  Claim C3, as the code has it. For a user absent from the browsing history and from the
  purchase history, on a cache miss and with \<open>top_n\<close> not negative, the request returns
  the output of the popularity recommender, each product with the popularity
  explanation, at most \<open>top_n\<close> entries long; it returns at once, and the cache is
  the one it was given: nothing is written.
\<close>

theorem new_user_popular_not_cached:
  assumes "browsing_history user_id = None" and "map_of purchase_history user_id = None"
    and "cache_miss r user_id season_input" and "0 \<le> top_n"
  shows "recommend_products_hybrid r env current_day kneighbors user_id season_input users
           products contextual_signals browsing_history purchase_history popular_products
           latent_ranking user_index product_index user_profiles product_feature_vectors
           top_n =
         Inr (Explained (map (\<lambda>product_id. (product_id, EXPLANATION_TEMPLATES Popular))
                (recommend_popular_trending_products user_id popular_products
                   purchase_history top_n)), r) \<and>
         int (length (recommend_popular_trending_products user_id popular_products
                purchase_history top_n)) \<le> top_n"
proof -
  have "get_cached_recommendations r user_id season_input = Inr None \<or>
        get_cached_recommendations r user_id season_input = Inr (Some [])"
    using assms(3) by (simp add: cache_miss_def)
  then have "recommend_products_hybrid r env current_day kneighbors user_id season_input users
           products contextual_signals browsing_history purchase_history popular_products
           latent_ranking user_index product_index user_profiles product_feature_vectors
           top_n =
         Inr (Explained (map (\<lambda>product_id. (product_id, EXPLANATION_TEMPLATES Popular))
                (recommend_popular_trending_products user_id popular_products
                   purchase_history top_n)), r)"
    using assms(1,2) by (auto simp: recommend_products_hybrid_def Let_def)
  moreover have "int (length (recommend_popular_trending_products user_id popular_products
                purchase_history top_n)) \<le> top_n"
    using assms(4) by (simp add: recommend_popular_trending_products_def length_py_take)
  ultimately show ?thesis by simp
qed

theorem new_user_popular_not_cached_witness:
  "recommend_products_hybrid empty_cache Map.empty ''Monday''
     (kneighbors_stub [0, 1, 2, 3, 4]) 999 [''All Year'', ''Summer''] sample_users
     sample_products sample_contextual_signals sample_browsing_history
     sample_purchase_history sample_popular_products (ranking_stub [0, 1, 3, 4, 2])
     sample_user_index sample_product_index sample_user_profiles
     sample_product_feature_vectors 5 =
   Inr (Explained (map (\<lambda>product_id. (product_id, EXPLANATION_TEMPLATES Popular))
          (recommend_popular_trending_products 999 sample_popular_products
             sample_purchase_history 5)), empty_cache) \<and>
   int (length (recommend_popular_trending_products 999 sample_popular_products
          sample_purchase_history 5)) \<le> 5"
proof -
  have b: "sample_browsing_history 999 = None"
    by (simp add: sample_browsing_history_def)
  have p: "map_of sample_purchase_history 999 = None"
    by (simp add: sample_purchase_history_def)
  have m: "cache_miss empty_cache 999 [''All Year'', ''Summer'']"
    by (simp add: cache_miss_def get_cached_recommendations_def redis_get_def empty_cache_def)
  have n: "(0::int) \<le> 5" by simp
  show ?thesis
    by (rule new_user_popular_not_cached
        [where browsing_history = sample_browsing_history and user_id = 999, OF b p m n])
qed

text \<open>
  The new-user result is not written to the cache: after the request of the unknown
  user 999 on the sample the cache is the empty cache it was before, and the key of the
  request holds nothing.
\<close>

theorem new_user_cached_counterexample:
  "recommend_products_hybrid empty_cache Map.empty ''Monday''
     (kneighbors_stub [0, 1, 2, 3, 4]) 999 [''All Year'', ''Summer''] sample_users
     sample_products sample_contextual_signals sample_browsing_history
     sample_purchase_history sample_popular_products (ranking_stub [0, 1, 3, 4, 2])
     sample_user_index sample_product_index sample_user_profiles
     sample_product_feature_vectors 5 =
   Inr (Explained [(101, EXPLANATION_TEMPLATES Popular), (103, EXPLANATION_TEMPLATES Popular),
                   (105, EXPLANATION_TEMPLATES Popular)], empty_cache) \<and>
   store empty_cache ''recommendations:999:All Year,Summer'' = None \<and>
   get_cached_recommendations empty_cache 999 [''All Year'', ''Summer''] = Inr None"
  by (simp add: model_defs sample_defs)

subsection \<open>Users without a profile\<close>

text \<open>
  Claim C10. For a user id that is not a key of \<open>user_profiles\<close> the content
  recommender raises KeyError, where the latent-factor recommender returns the empty
  list for a user missing from the index and the device recommender returns the empty
  list for a user missing from the user table. So the request of a user who is in the
  browsing or the purchase history but has no profile fails whenever it is not served
  from the cache.
\<close>

theorem cbf_raises_for_user_without_profile:
  assumes "user_profiles user_id = None"
  shows "recommend_products_cbf kneighbors user_id user_profiles product_feature_vectors
           purchase_history top_n = Inl KeyError \<and>
         (user_index user_id = None \<longrightarrow>
            recommend_products_mf user_id latent_ranking user_index product_index
              purchase_history top_n = Inr []) \<and>
         (users user_id = None \<longrightarrow>
            recommend_products_device_based user_id users products purchase_history top_n = []) \<and>
         ((browsing_history user_id \<noteq> None \<or> map_of purchase_history user_id \<noteq> None) \<and>
          (\<forall>entry entries. get_cached_recommendations r user_id season_input \<noteq>
                              Inr (Some (entry # entries))) \<longrightarrow>
            (\<exists>e. recommend_products_hybrid r env current_day kneighbors user_id season_input
                    users products contextual_signals browsing_history purchase_history
                    popular_products latent_ranking user_index product_index user_profiles
                    product_feature_vectors top_n = Inl e))"
proof -
  have cbf: "recommend_products_cbf kneighbors user_id user_profiles product_feature_vectors
           purchase_history top_n = Inl KeyError"
    using assms by (simp add: recommend_products_cbf_def)
  have mf: "user_index user_id = None \<longrightarrow>
            recommend_products_mf user_id latent_ranking user_index product_index
              purchase_history top_n = Inr []"
    by (simp add: recommend_products_mf_def)
  have dev: "users user_id = None \<longrightarrow>
            recommend_products_device_based user_id users products purchase_history top_n = []"
    by (simp add: recommend_products_device_based_def)
  have hyb: "\<exists>e. recommend_products_hybrid r env current_day kneighbors user_id season_input
                    users products contextual_signals browsing_history purchase_history
                    popular_products latent_ranking user_index product_index user_profiles
                    product_feature_vectors top_n = Inl e"
    if known: "browsing_history user_id \<noteq> None \<or> map_of purchase_history user_id \<noteq> None"
      and miss: "\<forall>entry entries. get_cached_recommendations r user_id season_input \<noteq>
                              Inr (Some (entry # entries))"
  proof (cases "get_cached_recommendations r user_id season_input")
    case (Inl e)
    then show ?thesis by (simp add: recommend_products_hybrid_def)
  next
    case (Inr cached)
    have "cached = None \<or> cached = Some []"
    proof (cases cached)
      case None
      then show ?thesis by simp
    next
      case (Some recs)
      with miss Inr show ?thesis by (cases recs) auto
    qed
    then show ?thesis
      using Inr known cbf
      by (auto simp: recommend_products_hybrid_def Let_def split: sum.splits)
  qed
  show ?thesis using cbf mf dev hyb by blast
qed

theorem cbf_raises_for_user_without_profile_witness:
  "recommend_products_cbf (kneighbors_stub [0, 3, 1, 2, 4]) 6 sample_user_profiles
     sample_product_feature_vectors guest_purchase_history 5 = Inl KeyError \<and>
   recommend_products_mf 6 (ranking_stub [0, 1, 3, 4, 2]) sample_user_index
     sample_product_index guest_purchase_history 5 = Inr [] \<and>
   recommend_products_device_based 6 sample_users sample_products guest_purchase_history 5 = [] \<and>
   (\<exists>e. recommend_products_hybrid empty_cache Map.empty ''Monday''
           (kneighbors_stub [0, 3, 1, 2, 4]) 6 [''All Year'', ''Summer''] sample_users
           sample_products sample_contextual_signals guest_browsing_history
           guest_purchase_history guest_popular_products (ranking_stub [0, 1, 3, 4, 2])
           sample_user_index sample_product_index sample_user_profiles
           sample_product_feature_vectors 5 = Inl e)"
proof -
  have p: "sample_user_profiles 6 = None"
    by (simp add: sample_user_profiles_def)
  have i: "sample_user_index 6 = None"
    by (simp add: sample_user_index_def)
  have u: "sample_users 6 = None"
    by (simp add: sample_users_def)
  have k: "guest_browsing_history 6 \<noteq> None \<or> map_of guest_purchase_history 6 \<noteq> None"
    by (simp add: guest_browsing_history_def)
  have m: "\<forall>entry entries. get_cached_recommendations empty_cache 6 [''All Year'', ''Summer''] \<noteq>
             Inr (Some (entry # entries))"
    by (simp add: get_cached_recommendations_def redis_get_def empty_cache_def)
  show ?thesis
    using cbf_raises_for_user_without_profile
        [where user_profiles = sample_user_profiles and user_id = 6
           and kneighbors = "kneighbors_stub [0, 3, 1, 2, 4]"
           and product_feature_vectors = sample_product_feature_vectors
           and purchase_history = guest_purchase_history and top_n = 5
           and user_index = sample_user_index
           and latent_ranking = "ranking_stub [0, 1, 3, 4, 2]"
           and product_index = sample_product_index and users = sample_users
           and products = sample_products and browsing_history = guest_browsing_history
           and r = empty_cache and season_input = "[''All Year'', ''Summer'']"
           and env = Map.empty and current_day = "''Monday''"
           and contextual_signals = sample_contextual_signals
           and popular_products = guest_popular_products, OF p]
      i u k m
    by blast
qed



subsection \<open>Default dictionaries and the stable descending sort\<close>

lemma keys_dd_update:
  "map fst (dd_update f d k kvs) =
     (if k \<in> set (map fst kvs) then map fst kvs else map fst kvs @ [k])"
  by (induction kvs) force+

lemma set_keys_dd_update: "set (map fst (dd_update f d k kvs)) = insert k (set (map fst kvs))"
  by (auto simp: keys_dd_update)

lemma distinct_keys_dd_update:
  "distinct (map fst kvs) \<Longrightarrow> distinct (map fst (dd_update f d k kvs))"
  by (simp add: keys_dd_update)

lemma map_of_dd_update:
  "map_of (dd_update f d k kvs) k' =
     (if k' = k then Some (f (case map_of kvs k of None \<Rightarrow> d | Some v \<Rightarrow> v))
      else map_of kvs k')"
  by (induction kvs) auto

lemma score_of_dd_update:
  "score_of (dd_update (\<lambda>v. v + c) 0 k scores) p =
     (if p = k then score_of scores p + c else score_of scores p)"
  by (simp add: score_of_def map_of_dd_update)

lemma score_of_member:
  assumes "distinct (map fst scores)" and "(p, s) \<in> set scores"
  shows "score_of scores p = s"
  using assms by (simp add: score_of_def)

lemma map_py_take: "map f (py_take n xs) = py_take n (map f xs)"
  by (simp add: py_take_def take_map)

lemma set_sorted_desc: "set (sorted_desc items) = set items"
  by (simp add: sorted_desc_def)

lemma distinct_keys_sorted_desc:
  "distinct (map fst (sorted_desc items)) = distinct (map fst items)"
  by (simp add: sorted_desc_def distinct_map)

lemma sorted_desc_descending: "sorted_wrt (\<lambda>a b. snd b \<le> snd a) (sorted_desc items)"
proof -
  have "sorted (map (\<lambda>x. - snd x) (sorted_desc items))"
    unfolding sorted_desc_def by (rule sorted_sort_key)
  then show ?thesis by (simp add: sorted_map)
qed


subsection \<open>The scores after the five loops\<close>

lemma score_of_score_loop:
  "score_of (fst (score_loop w src n i ps (sc, so))) p =
     score_of sc p + (\<Sum>j<length ps. if ps ! j = p then w * (1 - real (i + j) / real n) else 0)"
proof (induction ps arbitrary: i sc so)
  case Nil
  then show ?case by simp
next
  case (Cons q qs)
  show ?case
    by (simp add: Cons.IH score_of_dd_update sum.lessThan_Suc_shift ac_simps
        del: sum.lessThan_Suc cong: if_cong)
qed

lemma keys_score_loop:
  "set (map fst (fst (score_loop w src n i ps (sc, so)))) = set (map fst sc) \<union> set ps"
proof (induction ps arbitrary: i sc so)
  case Nil
  then show ?case by simp
next
  case (Cons q qs)
  show ?case by (simp add: Cons.IH set_keys_dd_update del: set_map)
qed

lemma distinct_score_loop:
  "distinct (map fst sc) \<Longrightarrow> distinct (map fst (fst (score_loop w src n i ps (sc, so))))"
proof (induction ps arbitrary: i sc so)
  case Nil
  then show ?case by simp
next
  case (Cons q qs)
  from Cons.prems show ?case by (simp add: Cons.IH distinct_keys_dd_update)
qed

lemma score_of_add_signal:
  "score_of (fst (add_signal w src xs t)) p = score_of (fst t) p + contribution w xs p"
  by (cases t) (simp add: add_signal_def contribution_def score_of_score_loop cong: if_cong)

lemma keys_add_signal:
  "set (map fst (fst (add_signal w src xs t))) = set (map fst (fst t)) \<union> set xs"
  by (cases t) (simp add: add_signal_def keys_score_loop del: set_map)

lemma distinct_add_signal:
  "distinct (map fst (fst t)) \<Longrightarrow> distinct (map fst (fst (add_signal w src xs t)))"
  by (cases t) (simp add: add_signal_def distinct_score_loop)

lemma score_of_empty: "score_of [] p = 0"
  by (simp add: score_of_def)

lemma score_of_fuse:
  "score_of (fst (fuse ws ms cs ps ts ds)) p =
     aggregate_score ws ms cs ps ts ds p"
  by (cases ws) (simp add: fuse_def aggregate_score_def score_of_add_signal score_of_empty)

lemma keys_fuse:
  "set (map fst (fst (fuse ws ms cs ps ts ds))) =
     set ms \<union> set cs \<union> set ps \<union> set ts \<union> set ds"
  by (cases ws) (simp add: fuse_def keys_add_signal del: set_map)

lemma distinct_fuse: "distinct (map fst (fst (fuse ws ms cs ps ts ds)))"
  by (cases ws) (simp add: fuse_def distinct_add_signal)

lemma ids_top_recommendations:
  "map fst (top_recommendations t top_n) = py_take top_n (map fst (sorted_desc (fst t)))"
  by (cases t) (simp add: top_recommendations_def Let_def map_py_take [symmetric] case_prod_beta)

lemma ranked_by_aggregate:
  "sorted_wrt (\<lambda>p q. aggregate_score ws ms cs ps ts ds q \<le>
                      aggregate_score ws ms cs ps ts ds p)
     (map fst (sorted_desc (fst (fuse ws ms cs ps ts ds))))"
proof -
  let ?scores = "fst (fuse ws ms cs ps ts ds)"
  have val: "snd a = aggregate_score ws ms cs ps ts ds (fst a)"
    if "a \<in> set (sorted_desc ?scores)" for a
  proof -
    from that have "(fst a, snd a) \<in> set ?scores" by (simp add: set_sorted_desc)
    then have "score_of ?scores (fst a) = snd a"
      by (rule score_of_member [OF distinct_fuse])
    then show ?thesis by (simp add: score_of_fuse)
  qed
  have "sorted_wrt (\<lambda>a b. snd b \<le> snd a) (sorted_desc ?scores)"
    by (rule sorted_desc_descending)
  then have "sorted_wrt (\<lambda>a b. aggregate_score ws ms cs ps ts ds (fst b) \<le>
                              aggregate_score ws ms cs ps ts ds (fst a))
               (sorted_desc ?scores)"
    by (rule sorted_wrt_mono_rel [rotated]) (simp add: val)
  then show ?thesis by (simp add: sorted_wrt_map)
qed

lemma keys_sorted_desc: "set (map fst (sorted_desc items)) = set (map fst items)"
  by (simp add: set_sorted_desc)

text \<open>
  Claim C8. On the fusion path (a user known from a history, a cache miss, no exception
  from the latent-factor or content recommender, one of the four other signals not
  empty, a cache that accepts the write, \<open>top_n\<close> not negative) the request returns
  the first \<open>top_n\<close> products of a ranking that lists each product of the five
  recommender outputs once, in descending order of its aggregate score. The aggregate
  score of a product is the sum over the five outputs of \<open>weight * (1 - i / L)\<close> for
  each position \<open>i\<close> at which the product stands in an output of length \<open>L\<close>.
\<close>

theorem fusion_ranks_by_aggregate_score:
  fixes user_id top_n :: int
    and popular_products :: "(int \<times> real) list"
    and purchase_history :: purchase_history
    and current_day :: string
    and season_input :: "string list"
    and products :: products
    and contextual_signals :: "(string \<times> signal) list"
    and users :: "int \<rightharpoonup> user"
    and popular_list time_list device_list :: "int list"
  defines "popular_list \<equiv>
             recommend_popular_trending_products user_id popular_products purchase_history top_n"
    and "time_list \<equiv>
             recommend_products_time_based current_day season_input products contextual_signals"
    and "device_list \<equiv>
             recommend_products_device_based user_id users products purchase_history top_n"
  assumes known: "browsing_history user_id \<noteq> None \<or> map_of purchase_history user_id \<noteq> None"
    and miss: "cache_miss r user_id season_input"
    and mf: "recommend_products_mf user_id latent_ranking user_index product_index
           purchase_history top_n = Inr mf_list"
    and cbf: "recommend_products_cbf kneighbors user_id user_profiles product_feature_vectors
           purchase_history top_n = Inr cbf_list"
    and some: "\<not> (mf_list = [] \<and> cbf_list = [] \<and> time_list = [] \<and> device_list = [])"
    and up: "\<not> setex_raises r" and nonneg: "0 \<le> top_n"
  shows "\<exists>top_recs r' ranked.
           recommend_products_hybrid r env current_day kneighbors user_id season_input users
             products contextual_signals browsing_history purchase_history popular_products
             latent_ranking user_index product_index user_profiles product_feature_vectors
             top_n = Inr (Explained top_recs, r') \<and>
           map fst top_recs = take (nat top_n) ranked \<and>
           distinct ranked \<and>
           set ranked = set mf_list \<union> set cbf_list \<union> set popular_list \<union> set time_list \<union>
                        set device_list \<and>
           sorted_wrt (\<lambda>p q.
               aggregate_score (signal_weights env False) mf_list cbf_list popular_list
                 time_list device_list q \<le>
               aggregate_score (signal_weights env False) mf_list cbf_list popular_list
                 time_list device_list p) ranked"
proof -
  let ?t = "fuse (signal_weights env False) mf_list cbf_list popular_list time_list device_list"
  let ?top = "top_recommendations ?t top_n"
  let ?ranked = "map fst (sorted_desc (fst ?t))"
  have rd: "get_cached_recommendations r user_id season_input = Inr None \<or>
        get_cached_recommendations r user_id season_input = Inr (Some [])"
    using miss by (simp add: cache_miss_def)
  have wr: "cache_recommendations r user_id season_input ?top 3600 =
      Inr (r\<lparr>store := (store r)(''recommendations:'' @ str_int user_id @ '':'' @
                                  join '','' season_input \<mapsto> Encoded ?top)\<rparr>)"
    using up by (rule cache_write_ok)
  have run: "recommend_products_hybrid r env current_day kneighbors user_id season_input users
             products contextual_signals browsing_history purchase_history popular_products
             latent_ranking user_index product_index user_profiles product_feature_vectors
             top_n =
      Inr (Explained ?top,
           r\<lparr>store := (store r)(''recommendations:'' @ str_int user_id @ '':'' @
                                  join '','' season_input \<mapsto> Encoded ?top)\<rparr>)"
    using rd known mf cbf some wr
    unfolding popular_list_def time_list_def device_list_def
    by (auto simp: recommend_products_hybrid_def Let_def)
  have ids: "map fst ?top = take (nat top_n) ?ranked"
    using nonneg by (simp add: ids_top_recommendations py_take_def)
  have dist: "distinct ?ranked"
    by (simp add: distinct_keys_sorted_desc distinct_fuse)
  have keys: "set ?ranked = set mf_list \<union> set cbf_list \<union> set popular_list \<union> set time_list \<union>
                        set device_list"
    by (simp only: keys_sorted_desc keys_fuse)
  have ord: "sorted_wrt (\<lambda>p q.
               aggregate_score (signal_weights env False) mf_list cbf_list popular_list
                 time_list device_list q \<le>
               aggregate_score (signal_weights env False) mf_list cbf_list popular_list
                 time_list device_list p) ?ranked"
    by (rule ranked_by_aggregate)
  from run ids dist keys ord show ?thesis by blast
qed

theorem fusion_ranks_by_aggregate_score_witness:
  "\<exists>top_recs r' ranked.
     recommend_products_hybrid empty_cache Map.empty ''Monday''
       (kneighbors_stub [0, 2, 1, 3, 4]) 1 [''All Year'', ''Summer''] sample_users
       sample_products sample_contextual_signals sample_browsing_history
       sample_purchase_history sample_popular_products (ranking_stub [0, 1, 3, 4, 2])
       sample_user_index sample_product_index sample_user_profiles
       sample_product_feature_vectors 5 = Inr (Explained top_recs, r') \<and>
     map fst top_recs = take (nat 5) ranked \<and>
     distinct ranked \<and>
     set ranked =
       set [102, 104, 105, 103] \<union> set [103, 102, 104, 105] \<union>
       set (recommend_popular_trending_products 1 sample_popular_products
              sample_purchase_history 5) \<union>
       set (recommend_products_time_based ''Monday'' [''All Year'', ''Summer''] sample_products
              sample_contextual_signals) \<union>
       set (recommend_products_device_based 1 sample_users sample_products
              sample_purchase_history 5) \<and>
     sorted_wrt (\<lambda>p q.
         aggregate_score (signal_weights Map.empty False) [102, 104, 105, 103]
           [103, 102, 104, 105]
           (recommend_popular_trending_products 1 sample_popular_products
              sample_purchase_history 5)
           (recommend_products_time_based ''Monday'' [''All Year'', ''Summer''] sample_products
              sample_contextual_signals)
           (recommend_products_device_based 1 sample_users sample_products
              sample_purchase_history 5) q \<le>
         aggregate_score (signal_weights Map.empty False) [102, 104, 105, 103]
           [103, 102, 104, 105]
           (recommend_popular_trending_products 1 sample_popular_products
              sample_purchase_history 5)
           (recommend_products_time_based ''Monday'' [''All Year'', ''Summer''] sample_products
              sample_contextual_signals)
           (recommend_products_device_based 1 sample_users sample_products
              sample_purchase_history 5) p) ranked"
proof -
  have k: "sample_browsing_history 1 \<noteq> None \<or> map_of sample_purchase_history 1 \<noteq> None"
    by (simp add: sample_browsing_history_def)
  have m: "cache_miss empty_cache 1 [''All Year'', ''Summer'']"
    by (simp add: cache_miss_def get_cached_recommendations_def redis_get_def empty_cache_def)
  have mf: "recommend_products_mf 1 (ranking_stub [0, 1, 3, 4, 2]) sample_user_index
              sample_product_index sample_purchase_history 5 = Inr [102, 104, 105, 103]"
    by (simp add: model_defs sample_defs)
  have cbf: "recommend_products_cbf (kneighbors_stub [0, 2, 1, 3, 4]) 1 sample_user_profiles
               sample_product_feature_vectors sample_purchase_history 5 =
             Inr [103, 102, 104, 105]"
    by (simp add: model_defs sample_defs)
  have ne: "\<not> ([102, 104, 105, 103] = ([] :: int list) \<and> [103, 102, 104, 105] = ([] :: int list) \<and>
       recommend_products_time_based ''Monday'' [''All Year'', ''Summer''] sample_products
         sample_contextual_signals = [] \<and>
       recommend_products_device_based 1 sample_users sample_products
         sample_purchase_history 5 = [])"
    by simp
  have s: "\<not> setex_raises empty_cache"
    by (simp add: empty_cache_def)
  have n: "(0::int) \<le> 5" by simp
  show ?thesis
    by (rule fusion_ranks_by_aggregate_score
        [where browsing_history = sample_browsing_history and user_id = 1, OF k m mf cbf ne s n])
qed



subsection \<open>When the fallback is taken\<close>

lemma fuse_nonempty:
  assumes "\<not> (ms = [] \<and> cs = [] \<and> ts = [] \<and> ds = [])"
  shows "fst (fuse ws ms cs ps ts ds) \<noteq> []"
proof
  assume "fst (fuse ws ms cs ps ts ds) = []"
  then have "set (map fst (fst (fuse ws ms cs ps ts ds))) = {}" by simp
  then have "set ms \<union> set cs \<union> set ps \<union> set ts \<union> set ds = {}"
    by (simp only: keys_fuse)
  with assms show False by simp
qed

lemma top_recommendations_nonempty:
  assumes "0 < top_n" and "fst t \<noteq> []"
  shows "top_recommendations t top_n \<noteq> []"
proof -
  have "length (map fst (sorted_desc (fst t))) = length (fst t)"
    by (simp add: sorted_desc_def)
  with assms have "py_take top_n (map fst (sorted_desc (fst t))) \<noteq> []"
    by (auto simp: py_take_def)
  then have "map fst (top_recommendations t top_n) \<noteq> []"
    by (simp add: ids_top_recommendations)
  then show ?thesis by auto
qed

text \<open>
  Claim C4, as the code has it. For a user known from a history, on a cache miss and
  when neither the latent-factor nor the content recommender raises: if the four other
  recommenders (latent-factor, content, time-based, device-based) all return the empty
  list, the request returns the ranking of the popularity recommender cut to \<open>top_n\<close>
  and the cache is the one it was given; if one of the four is not empty, the request
  goes on to the fusion and the cache write. The popularity recommender is not among
  the signals tested. For a positive \<open>top_n\<close> the two outcomes differ, so the request
  returns the popularity ranking with the cache untouched if and only if the four are
  empty.
\<close>

theorem fallback_iff_other_four_empty:
  fixes user_id top_n :: int
    and popular_products :: "(int \<times> real) list"
    and purchase_history :: purchase_history
    and current_day :: string
    and season_input :: "string list"
    and products :: products
    and contextual_signals :: "(string \<times> signal) list"
    and users :: "int \<rightharpoonup> user"
    and popular_list time_list device_list :: "int list"
  defines "popular_list \<equiv>
             recommend_popular_trending_products user_id popular_products purchase_history top_n"
    and "time_list \<equiv>
             recommend_products_time_based current_day season_input products contextual_signals"
    and "device_list \<equiv>
             recommend_products_device_based user_id users products purchase_history top_n"
  assumes known: "browsing_history user_id \<noteq> None \<or> map_of purchase_history user_id \<noteq> None"
    and miss: "cache_miss r user_id season_input"
    and mf: "recommend_products_mf user_id latent_ranking user_index product_index
           purchase_history top_n = Inr mf_list"
    and cbf: "recommend_products_cbf kneighbors user_id user_profiles product_feature_vectors
           purchase_history top_n = Inr cbf_list"
  shows "(mf_list = [] \<and> cbf_list = [] \<and> time_list = [] \<and> device_list = [] \<longrightarrow>
            (\<exists>res. recommend_products_hybrid r env current_day kneighbors user_id season_input
                     users products contextual_signals browsing_history purchase_history
                     popular_products latent_ranking user_index product_index user_profiles
                     product_feature_vectors top_n = Inr (res, r) \<and>
                   product_ids res = py_take top_n popular_list)) \<and>
         (\<not> (mf_list = [] \<and> cbf_list = [] \<and> time_list = [] \<and> device_list = []) \<longrightarrow>
            recommend_products_hybrid r env current_day kneighbors user_id season_input
              users products contextual_signals browsing_history purchase_history
              popular_products latent_ranking user_index product_index user_profiles
              product_feature_vectors top_n =
            (case cache_recommendations r user_id season_input
                    (top_recommendations
                       (fuse (signal_weights env False) mf_list cbf_list popular_list
                          time_list device_list) top_n) 3600 of
               Inl e \<Rightarrow> Inl e
             | Inr r' \<Rightarrow>
                 Inr (Explained
                        (top_recommendations
                           (fuse (signal_weights env False) mf_list cbf_list popular_list
                              time_list device_list) top_n), r'))) \<and>
         (0 < top_n \<longrightarrow>
            ((\<exists>res. recommend_products_hybrid r env current_day kneighbors user_id season_input
                     users products contextual_signals browsing_history purchase_history
                     popular_products latent_ranking user_index product_index user_profiles
                     product_feature_vectors top_n = Inr (res, r) \<and>
                   product_ids res = py_take top_n popular_list)
             \<longleftrightarrow>
             mf_list = [] \<and> cbf_list = [] \<and> time_list = [] \<and> device_list = []))"
proof -
  let ?run = "recommend_products_hybrid r env current_day kneighbors user_id season_input
                users products contextual_signals browsing_history purchase_history
                popular_products latent_ranking user_index product_index user_profiles
                product_feature_vectors top_n"
  let ?empty = "mf_list = [] \<and> cbf_list = [] \<and> time_list = [] \<and> device_list = []"
  let ?top = "top_recommendations
                (fuse (signal_weights env False) mf_list cbf_list popular_list time_list
                   device_list) top_n"
  let ?key = "''recommendations:'' @ str_int user_id @ '':'' @ join '','' season_input"
  have rd: "get_cached_recommendations r user_id season_input = Inr None \<or>
        get_cached_recommendations r user_id season_input = Inr (Some [])"
    using miss by (simp add: cache_miss_def)
  have fallback: "?run = Inr (Plain (py_take top_n popular_list), r)" if "?empty"
    using rd known mf cbf that
    unfolding popular_list_def time_list_def device_list_def
    by (auto simp: recommend_products_hybrid_def Let_def)
  have fusion: "?run = (case cache_recommendations r user_id season_input ?top 3600 of
                          Inl e \<Rightarrow> Inl e | Inr r' \<Rightarrow> Inr (Explained ?top, r'))"
    if "\<not> ?empty"
    using rd known mf cbf that
    unfolding popular_list_def time_list_def device_list_def
    by (auto simp: recommend_products_hybrid_def Let_def)
  have a: "\<exists>res. ?run = Inr (res, r) \<and> product_ids res = py_take top_n popular_list"
    if "?empty"
    using fallback [OF that] by (simp add: product_ids_def)
  have c: "?empty"
    if pos: "0 < top_n"
      and out: "\<exists>res. ?run = Inr (res, r) \<and> product_ids res = py_take top_n popular_list"
  proof (rule ccontr)
    assume ne: "\<not> ?empty"
    from out obtain res where res: "?run = Inr (res, r)" by blast
    have top_ne: "?top \<noteq> []"
      using pos fuse_nonempty [OF ne] by (rule top_recommendations_nonempty)
    show False
    proof (cases "setex_raises r")
      case True
      then have "?run = Inl RedisError"
        using fusion [OF ne] by (simp add: cache_write_fails)
      with res show False by simp
    next
      case False
      then have "?run = Inr (Explained ?top, r\<lparr>store := (store r)(?key \<mapsto> Encoded ?top)\<rparr>)"
        using fusion [OF ne] by (simp add: cache_write_ok)
      with res have "r\<lparr>store := (store r)(?key \<mapsto> Encoded ?top)\<rparr> = r" by simp
      then have "store (r\<lparr>store := (store r)(?key \<mapsto> Encoded ?top)\<rparr>) ?key = store r ?key"
        by simp
      then have stored: "store r ?key = Some (Encoded ?top)" by simp
      then have "get_cached_recommendations r user_id season_input =
                   (if get_raises r then Inl RedisError else Inr (Some ?top))"
        by (simp add: get_cached_recommendations_def redis_get_def)
      with rd top_ne show False by (auto split: if_splits)
    qed
  qed
  from a fusion c show ?thesis by blast
qed

theorem fallback_iff_other_four_empty_witness:
  "(\<exists>res. recommend_products_hybrid empty_cache Map.empty ''Sunday''
            (kneighbors_stub [0, 3, 1, 2, 4]) 6 [''Summer''] sample_users sample_products
            sample_contextual_signals guest_browsing_history guest_purchase_history
            guest_popular_products (ranking_stub [0, 1, 3, 4, 2]) sample_user_index
            sample_product_index guest_user_profiles sample_product_feature_vectors 1 =
            Inr (res, empty_cache) \<and>
          product_ids res =
            py_take 1 (recommend_popular_trending_products 6 guest_popular_products
                         guest_purchase_history 1)) \<and>
   recommend_products_hybrid empty_cache Map.empty ''Monday''
     (kneighbors_stub [0, 2, 1, 3, 4]) 1 [''All Year'', ''Summer''] sample_users
     sample_products sample_contextual_signals sample_browsing_history
     sample_purchase_history sample_popular_products (ranking_stub [0, 1, 3, 4, 2])
     sample_user_index sample_product_index sample_user_profiles
     sample_product_feature_vectors 5 =
   (case cache_recommendations empty_cache 1 [''All Year'', ''Summer'']
           (top_recommendations
              (fuse (signal_weights Map.empty False) [102, 104, 105, 103]
                 [103, 102, 104, 105]
                 (recommend_popular_trending_products 1 sample_popular_products
                    sample_purchase_history 5)
                 (recommend_products_time_based ''Monday'' [''All Year'', ''Summer'']
                    sample_products sample_contextual_signals)
                 (recommend_products_device_based 1 sample_users sample_products
                    sample_purchase_history 5)) 5) 3600 of
      Inl e \<Rightarrow> Inl e
    | Inr r' \<Rightarrow>
        Inr (Explained
               (top_recommendations
                  (fuse (signal_weights Map.empty False) [102, 104, 105, 103]
                     [103, 102, 104, 105]
                     (recommend_popular_trending_products 1 sample_popular_products
                        sample_purchase_history 5)
                     (recommend_products_time_based ''Monday'' [''All Year'', ''Summer'']
                        sample_products sample_contextual_signals)
                     (recommend_products_device_based 1 sample_users sample_products
                        sample_purchase_history 5)) 5), r'))"
proof -
  have k6: "guest_browsing_history 6 \<noteq> None \<or> map_of guest_purchase_history 6 \<noteq> None"
    by (simp add: guest_browsing_history_def)
  have m6: "cache_miss empty_cache 6 [''Summer'']"
    by (simp add: cache_miss_def get_cached_recommendations_def redis_get_def empty_cache_def)
  have mf6: "recommend_products_mf 6 (ranking_stub [0, 1, 3, 4, 2]) sample_user_index
              sample_product_index guest_purchase_history 1 = Inr []"
    by (simp add: recommend_products_mf_def sample_user_index_def)
  have cbf6: "recommend_products_cbf (kneighbors_stub [0, 3, 1, 2, 4]) 6 guest_user_profiles
               sample_product_feature_vectors guest_purchase_history 1 = Inr []"
    by (simp add: model_defs sample_defs)
  have e6: "([] :: int list) = [] \<and> ([] :: int list) = [] \<and>
        recommend_products_time_based ''Sunday'' [''Summer''] sample_products
          sample_contextual_signals = [] \<and>
        recommend_products_device_based 6 sample_users sample_products
          guest_purchase_history 1 = []"
    by (simp add: model_defs sample_defs)
  have k1: "sample_browsing_history 1 \<noteq> None \<or> map_of sample_purchase_history 1 \<noteq> None"
    by (simp add: sample_browsing_history_def)
  have m1: "cache_miss empty_cache 1 [''All Year'', ''Summer'']"
    by (simp add: cache_miss_def get_cached_recommendations_def redis_get_def empty_cache_def)
  have mf1: "recommend_products_mf 1 (ranking_stub [0, 1, 3, 4, 2]) sample_user_index
              sample_product_index sample_purchase_history 5 = Inr [102, 104, 105, 103]"
    by (simp add: model_defs sample_defs)
  have cbf1: "recommend_products_cbf (kneighbors_stub [0, 2, 1, 3, 4]) 1 sample_user_profiles
               sample_product_feature_vectors sample_purchase_history 5 =
             Inr [103, 102, 104, 105]"
    by (simp add: model_defs sample_defs)
  have n1: "\<not> ([102, 104, 105, 103] = ([] :: int list) \<and>
        [103, 102, 104, 105] = ([] :: int list) \<and>
        recommend_products_time_based ''Monday'' [''All Year'', ''Summer''] sample_products
          sample_contextual_signals = [] \<and>
        recommend_products_device_based 1 sample_users sample_products
          sample_purchase_history 5 = [])"
    by simp
  note t6 = fallback_iff_other_four_empty
    [where browsing_history = guest_browsing_history and user_id = 6
       and env = Map.empty and current_day = "''Sunday''" and users = sample_users
       and products = sample_products and contextual_signals = sample_contextual_signals
       and popular_products = guest_popular_products, OF k6 m6 mf6 cbf6]
  note t1 = fallback_iff_other_four_empty
    [where browsing_history = sample_browsing_history and user_id = 1
       and env = Map.empty and current_day = "''Monday''" and users = sample_users
       and products = sample_products and contextual_signals = sample_contextual_signals
       and popular_products = sample_popular_products, OF k1 m1 mf1 cbf1]
  show ?thesis
    by (rule conjI [OF t6 [THEN conjunct1, THEN mp, OF e6]
          t1 [THEN conjunct2, THEN conjunct1, THEN mp, OF n1]])
qed

text \<open>
  The fallback is taken although one of the five recommenders has a result: for user 6
  on a Sunday with the season input Holiday the four other signals are empty, the
  request returns the fallback list, and the popularity recommender returned product 103.
\<close>

theorem fallback_five_empty_counterexample:
  "recommend_products_hybrid empty_cache Map.empty ''Sunday''
     (kneighbors_stub [0, 3, 1, 2, 4]) 6 [''Holiday''] sample_users sample_products
     sample_contextual_signals guest_browsing_history guest_purchase_history
     guest_popular_products (ranking_stub [0, 1, 3, 4, 2]) sample_user_index
     sample_product_index guest_user_profiles sample_product_feature_vectors 1 =
     Inr (Plain [103], empty_cache) \<and>
   recommend_popular_trending_products 6 guest_popular_products guest_purchase_history 1 =
     [103]"
  by (simp add: model_defs sample_defs)

subsection \<open>The popularity ranking\<close>













end
